theory Spec2Isabelle
  imports Main
begin

section \<open>The request/response pipeline of package httpclient\<close>

text \<open>
  A shallow embedding of \<^verbatim>\<open>httpclient.go\<close>: the codec pair \<^verbatim>\<open>marshal\<close> /
  \<^verbatim>\<open>unmarshal\<close>, the request builder \<^verbatim>\<open>NewRequest\<close>, the dispatcher \<^verbatim>\<open>Do\<close>,
  the two default callbacks and \<^verbatim>\<open>drainBody\<close>.

  Go values that live behind pointers and interfaces are passed as values here, and every
  function returns the values it has changed next to its result: a stream that was
  read comes back shorter, a stream that was closed comes back closed. A \<^verbatim>\<open>nil\<close>
  pointer, interface or function value is \<open>None\<close>. A \<^verbatim>\<open>panic\<close> is a result of its
  own, never an error value.
\<close>

subsection \<open>Errors and panics\<close>

text \<open>
  The two package variables \<^verbatim>\<open>ErrUnknownContentType\<close> and \<^verbatim>\<open>ErrTooManyRequest\<close> are
  values of their own: Go compares them by identity, so an error made elsewhere with the
  same text is a different error. \<open>ErrorString\<close> is \<^verbatim>\<open>errors.New(text)\<close>, \<open>Wrap\<close> is
  \<^verbatim>\<open>errors.Wrap(err, message)\<close> of pkg/errors, and \<open>Foreign\<close> is an error that comes
  out of a library or the network (a failed read, a failed close, a syntax error of a
  decoder, a denied rate-limiter reservation).
\<close>

datatype error =
    ErrUnknownContentType
  | ErrTooManyRequest
  | ErrorString string
  | Wrap error string
  | Foreign string

text \<open>\<^verbatim>\<open>err.Error()\<close>: the text of an error.\<close>

fun Error :: "error \<Rightarrow> string" where
  "Error ErrUnknownContentType = ''unknown media type''"
| "Error ErrTooManyRequest = ''too many requests''"
| "Error (ErrorString s) = s"
| "Error (Wrap e msg) = msg @ '': '' @ Error e"
| "Error (Foreign s) = s"

text \<open>\<^verbatim>\<open>errors.Cause(err)\<close> of pkg/errors: the innermost wrapped error.\<close>

fun Cause :: "error \<Rightarrow> error" where
  "Cause (Wrap e msg) = Cause e"
| "Cause e = e"

text \<open>
  What \<^verbatim>\<open>recover()\<close> would see: the message of an explicit \<^verbatim>\<open>panic("...")\<close> of the
  package, or the runtime's nil dereference.
\<close>

datatype panic = PanicString string | NilDereference

datatype 'a outcome = Returned 'a | Panicked panic

subsection \<open>Byte streams\<close>

text \<open>
  An \<^verbatim>\<open>io.ReadCloser\<close> is one of three things.
  \<^item> \<open>NoBody\<close> is \<^verbatim>\<open>http.NoBody\<close>, a value of an empty struct type: any two of them are
    equal, reading it gives the end of the stream at once, closing it does nothing.
  \<^item> \<open>Wire\<close> is a stream that some other party implements (the transport's response
    body): \<open>pending\<close> are the bytes it still delivers; after them a read ends the stream,
    or fails with \<open>read_fault\<close> when there is one; \<^verbatim>\<open>Close\<close> fails with \<open>close_fault\<close>
    when there is one and then leaves the stream as it was, and closes it otherwise.
    So \<open>closed\<close> says that a \<^verbatim>\<open>Close\<close> has succeeded on the stream. Reading a closed
    stream fails, as net/http's response bodies do.
  \<^item> \<open>NopCloser\<close> is \<^verbatim>\<open>ioutil.NopCloser\<close> over bytes held in memory: reading never
    fails and \<^verbatim>\<open>Close\<close> does nothing.
\<close>

type_synonym bytes = string

record wire =
  pending :: bytes
  read_fault :: "error option"
  close_fault :: "error option"
  closed :: bool

datatype body = NoBody | Wire wire | NopCloser bytes

definition ErrBodyReadAfterClose :: error where
  "ErrBodyReadAfterClose = Foreign ''http: read on closed response body''"

text \<open>
  Reading a stream to its end, as \<^verbatim>\<open>buf.ReadFrom(b)\<close>, \<^verbatim>\<open>ioutil.ReadAll(b)\<close> and the
  source side of \<^verbatim>\<open>io.Copy\<close> do: the stream afterwards, the bytes read, and the error
  (\<open>None\<close> when the end of the stream was reached).
\<close>

fun ReadFrom :: "body \<Rightarrow> body \<times> bytes \<times> error option" where
  "ReadFrom NoBody = (NoBody, [], None)"
| "ReadFrom (NopCloser bs) = (NopCloser [], bs, None)"
| "ReadFrom (Wire w) =
     (if closed w then (Wire w, [], Some ErrBodyReadAfterClose)
      else (Wire (w\<lparr>pending := []\<rparr>), pending w, read_fault w))"

text \<open>\<^verbatim>\<open>b.Close()\<close>: the stream afterwards and the error.\<close>

fun Close :: "body \<Rightarrow> body \<times> error option" where
  "Close NoBody = (NoBody, None)"
| "Close (NopCloser bs) = (NopCloser bs, None)"
| "Close (Wire w) =
     (case close_fault w of
        None \<Rightarrow> (Wire (w\<lparr>closed := True\<rparr>), None)
      | Some e \<Rightarrow> (Wire w, Some e))"

subsection \<open>drainBody\<close>

text \<open>
  \<^verbatim>\<open>func drainBody(b io.ReadCloser) (r1, r2 io.ReadCloser, err error)\<close>. On a failure the
  second result is \<^verbatim>\<open>b\<close> itself, in the state the failed read or the failed close has
  left it in. On success the two results read the same captured bytes, each with a
  position of its own. The argument is a stream that is there; what calling it on a
  \<^verbatim>\<open>nil\<close> stream does (the read dereferences \<^verbatim>\<open>nil\<close>) is written out at the call in
  \<^verbatim>\<open>Do\<close>.
\<close>

definition drainBody :: "body \<Rightarrow> body option \<times> body option \<times> error option" where
  "drainBody b =
     (if b = NoBody then (Some NoBody, Some NoBody, None)
      else
        (case ReadFrom b of
           (b1, buf, Some err) \<Rightarrow> (None, Some b1, Some err)
         | (b1, buf, None) \<Rightarrow>
             (case Close b1 of
                (b2, Some err) \<Rightarrow> (None, Some b2, Some err)
              | (b2, None) \<Rightarrow> (Some (NopCloser buf), Some (NopCloser buf), None))))"

subsection \<open>Writers, payloads and decoding targets\<close>

text \<open>
  An \<^verbatim>\<open>io.Writer\<close>: the bytes written so far, and the error every write fails with when
  there is one. \<open>bytes_Buffer\<close> is \<^verbatim>\<open>new(bytes.Buffer)\<close>, whose writes never fail.
\<close>

record writer =
  written :: bytes
  write_fault :: "error option"

definition Write :: "writer \<Rightarrow> bytes \<Rightarrow> writer \<times> error option" where
  "Write w bs =
     (case write_fault w of
        None \<Rightarrow> (w\<lparr>written := written w @ bs\<rparr>, None)
      | Some e \<Rightarrow> (w, Some e))"

definition bytes_Buffer :: writer where
  "bytes_Buffer = \<lparr>written = [], write_fault = None\<rparr>"

text \<open>
  A payload is an \<^verbatim>\<open>interface{}\<close>; \<open>None\<close> is the \<^verbatim>\<open>nil\<close> interface. A value that is
  there is described by what the encoders of the standard library and of yaml.v2 make of
  it: what \<^verbatim>\<open>fmt\<close> prints through its \<^verbatim>\<open>Format\<close> method when it has one
  (\<^verbatim>\<open>fmt.Formatter\<close>), through its \<^verbatim>\<open>Error()\<close> method when it has one (\<^verbatim>\<open>error\<close>),
  through its \<^verbatim>\<open>String()\<close> method when it has one (\<^verbatim>\<open>fmt.Stringer\<close>), the text
  \<^verbatim>\<open>fmt\<close> prints for a value with none of the three, its JSON encoding
  (\<^verbatim>\<open>json.Marshal\<close>) and its YAML encoding (\<^verbatim>\<open>yaml.Marshal\<close>), each of the two an
  error when the value cannot be encoded.
\<close>

record go_value =
  Format_method :: "string option"
  Error_method :: "string option"
  String_method :: "string option"
  default_format :: string
  json_encoding :: "error + bytes"
  yaml_encoding :: "error + bytes"

text \<open>
  What \<^verbatim>\<open>fmt.Fprint(w, v)\<close> writes for one operand that is not \<^verbatim>\<open>nil\<close>: \<^verbatim>\<open>fmt\<close> asks
  for a \<^verbatim>\<open>Formatter\<close> first, then for an \<^verbatim>\<open>error\<close>, then for a \<^verbatim>\<open>Stringer\<close>, and
  prints its default rendering when the value is none of them.
\<close>

definition fmt_Sprint :: "go_value \<Rightarrow> string" where
  "fmt_Sprint v =
     (case Format_method v of
        Some s \<Rightarrow> s
      | None \<Rightarrow>
          (case Error_method v of
             Some s \<Rightarrow> s
           | None \<Rightarrow>
               (case String_method v of
                  Some s \<Rightarrow> s
                | None \<Rightarrow> default_format v)))"

text \<open>
  The target of a decoding is an \<^verbatim>\<open>interface{}\<close> as well: the \<^verbatim>\<open>nil\<close> interface
  (\<open>NilTarget\<close>), a value that implements \<^verbatim>\<open>io.Writer\<close>, a \<^verbatim>\<open>*string\<close> that points
  to a string (\<open>StringPtr\<close>, with that string), a \<^verbatim>\<open>*string\<close> that is a \<^verbatim>\<open>nil\<close>
  pointer (\<open>NilStringPtr\<close>: the interface holds a type and is not \<^verbatim>\<open>nil\<close>, and the type
  assertion to \<^verbatim>\<open>*string\<close> succeeds), or a value of any other type (with a rendering
  of what it holds, which only the decoders of the libraries read and write).
\<close>

datatype target =
    NilTarget
  | WriterTarget writer
  | StringPtr string
  | NilStringPtr
  | OtherPtr bytes

subsection \<open>Requests, responses and the client\<close>

type_synonym header = "(string \<times> string list) list"

fun Header_Set :: "string \<Rightarrow> string \<Rightarrow> header \<Rightarrow> header" where
  "Header_Set k v [] = [(k, [v])]"
| "Header_Set k v ((k', vs) # h) =
     (if k = k' then (k', [v]) # h else (k', vs) # Header_Set k v h)"

fun Header_Add :: "string \<Rightarrow> string \<Rightarrow> header \<Rightarrow> header" where
  "Header_Add k v [] = [(k, [v])]"
| "Header_Add k v ((k', vs) # h) =
     (if k = k' then (k', vs @ [v]) # h else (k', vs) # Header_Add k v h)"

datatype go_context = Background | Canceled | DeadlineExceeded

record request =
  Method :: string
  URL :: string
  Header :: header
  RequestBody :: bytes
  Context :: go_context

definition WithContext :: "request \<Rightarrow> go_context \<Rightarrow> request" where
  "WithContext req ctx = req\<lparr>Context := ctx\<rparr>"

text \<open>
  Of an \<^verbatim>\<open>http.Response\<close> the package reads the status code, the status line and the
  body. \<open>Body\<close> is \<open>None\<close> for a \<^verbatim>\<open>nil\<close> body.
\<close>

record response =
  StatusCode :: int
  Status :: string
  Body :: "body option"

text \<open>
  \<^verbatim>\<open>c.client.Do(req)\<close> returns an error, with or without a response, or a response
  without an error.
\<close>

datatype transport_result = Failed "response option" error | Responded response

text \<open>
  A callback gets a pointer and returns a pointer: it may change what it was given, or
  return something else, or \<^verbatim>\<open>nil\<close>. Here it is a function from the value it was given
  to the value behind the pointer it returns, which covers all three; the package goes on
  with the returned pointer alone.
\<close>

type_synonym RequestCallbackFunc = "request \<Rightarrow> request option"

type_synonym ResponseCallbackFunc = "response \<Rightarrow> response option \<times> error option"

text \<open>
  A marshaler gets the writer, the payload and the content type, and returns the writer
  as it has left it, the content type and the error. An unmarshaler gets the reader (which
  is \<^verbatim>\<open>resp.Body\<close>, and may be \<^verbatim>\<open>nil\<close>), the target and the content type, and returns
  the reader and the target as it has left them and the error, or panics.
\<close>

type_synonym MarshalerFunc =
  "writer \<Rightarrow> go_value option \<Rightarrow> string \<Rightarrow> writer \<times> string \<times> error option"

type_synonym UnmarshalerFunc =
  "body option \<Rightarrow> target \<Rightarrow> string \<Rightarrow> (body option \<times> target \<times> error option) outcome"

text \<open>
  \<open>limiter\<close> is \<open>None\<close> without a rate limiter; with one it is the result of
  \<^verbatim>\<open>c.limiter.Wait(ctx)\<close>.
\<close>

record Client =
  client :: "request \<Rightarrow> transport_result"
  limiter :: "(go_context \<Rightarrow> error option) option"
  BaseURL :: string
  ContentType :: string
  username :: string
  password :: string
  keepResponseBody :: bool
  header :: "header option"
  Marshaler :: "MarshalerFunc option"
  Unmarshaler :: "UnmarshalerFunc option"
  RequestCallback :: "RequestCallbackFunc option"
  ResponseCallback :: "ResponseCallbackFunc option"

text \<open>
  What the package calls in net/url, net/http, encoding/json and yaml.v2 is a parameter
  of the model: parsing a URL (the parsed URL is kept as a string), resolving a reference
  against a base, the checks of \<^verbatim>\<open>http.NewRequest\<close> on method and URL, the value of the
  \<^verbatim>\<open>Authorization\<close> header for a user and a password, \<^verbatim>\<open>json.NewDecoder(r).Decode(v)\<close>,
  \<^verbatim>\<open>yaml.Unmarshal(data, v)\<close>, and the default \<^verbatim>\<open>http.Client\<close>.
\<close>

record library =
  url_Parse :: "string \<Rightarrow> error + string"
  ResolveReference :: "string \<Rightarrow> string \<Rightarrow> string"
  http_NewRequest :: "string \<Rightarrow> string \<Rightarrow> error option"
  basicAuth :: "string \<Rightarrow> string \<Rightarrow> string"
  json_Decode :: "body \<Rightarrow> target \<Rightarrow> body \<times> target \<times> error option"
  yaml_Unmarshal :: "bytes \<Rightarrow> target \<Rightarrow> target \<times> error option"
  http_Client :: "request \<Rightarrow> transport_result"

subsection \<open>The codecs\<close>

definition ContentTypeText :: string where "ContentTypeText = ''text/plain''"
definition ContentTypeJSON :: string where "ContentTypeJSON = ''application/json''"
definition ContentTypeYAML :: string where "ContentTypeYAML = ''application/yaml''"

text \<open>\<^verbatim>\<open>json.NewEncoder(w).Encode(v)\<close> writes the encoding and a newline.\<close>

definition MarshalJSON :: "writer \<Rightarrow> go_value \<Rightarrow> string \<Rightarrow> writer \<times> error option" where
  "MarshalJSON w v mediaType =
     (case json_encoding v of
        Inl err \<Rightarrow> (w, Some err)
      | Inr b \<Rightarrow> Write w (b @ [CHR 0x0A]))"

definition MarshalYAML :: "writer \<Rightarrow> go_value \<Rightarrow> string \<Rightarrow> writer \<times> error option" where
  "MarshalYAML w v mediaType =
     (case yaml_encoding v of
        Inl err \<Rightarrow> (w, Some err)
      | Inr b \<Rightarrow> Write w b)"

definition marshal :: MarshalerFunc where
  "marshal w v mediaType =
     (case v of
        None \<Rightarrow> (w, mediaType, None)
      | Some x \<Rightarrow>
          if mediaType = ContentTypeJSON then
            (case MarshalJSON w x mediaType of (w', err) \<Rightarrow> (w', ContentTypeJSON, err))
          else if mediaType = ContentTypeYAML then
            (case MarshalYAML w x mediaType of (w', err) \<Rightarrow> (w', ContentTypeYAML, err))
          else if mediaType = ContentTypeText then
            (case Write w (fmt_Sprint x) of (w', err) \<Rightarrow> (w', ContentTypeText, err))
          else (w, mediaType, Some (Wrap ErrUnknownContentType mediaType)))"

text \<open>
  \<^verbatim>\<open>io.Copy(w, r)\<close>: reads \<^verbatim>\<open>r\<close> to its end and writes what it has read; a failed
  write is reported before a failed read. Every path of it calls \<^verbatim>\<open>Read\<close> on the
  reader, which a \<^verbatim>\<open>nil\<close> reader answers with a panic.
\<close>

definition io_Copy ::
  "writer \<Rightarrow> body option \<Rightarrow> (body option \<times> target \<times> error option) outcome" where
  "io_Copy w r =
     (case r of
        None \<Rightarrow> Panicked NilDereference
      | Some b \<Rightarrow>
          (case ReadFrom b of
             (b1, data, rerr) \<Rightarrow>
               (case (if data = [] then (w, None) else Write w data) of
                  (w', Some werr) \<Rightarrow> Returned (Some b1, WriterTarget w', Some werr)
                | (w', None) \<Rightarrow> Returned (Some b1, WriterTarget w', rerr))))"

definition UnmarshalJSON :: "library \<Rightarrow> UnmarshalerFunc" where
  "UnmarshalJSON L r v mediaType =
     (case r of
        None \<Rightarrow> Panicked NilDereference
      | Some b \<Rightarrow> (case json_Decode L b v of (b1, v', err) \<Rightarrow> Returned (Some b1, v', err)))"

definition UnmarshalYAML :: "library \<Rightarrow> UnmarshalerFunc" where
  "UnmarshalYAML L r v mediaType =
     (case r of
        None \<Rightarrow> Panicked NilDereference
      | Some b \<Rightarrow>
          (case ReadFrom b of
             (b1, data, Some err) \<Rightarrow> Returned (Some b1, v, Some err)
           | (b1, data, None) \<Rightarrow>
               (case yaml_Unmarshal L data v of (v', err) \<Rightarrow> Returned (Some b1, v', err))))"

definition unmarshal :: "library \<Rightarrow> UnmarshalerFunc" where
  "unmarshal L r v mediaType =
     (case v of
        NilTarget \<Rightarrow> Returned (r, v, None)
      | WriterTarget w \<Rightarrow> io_Copy w r
      | _ \<Rightarrow>
          if mediaType = ContentTypeJSON then UnmarshalJSON L r v mediaType
          else if mediaType = ContentTypeYAML then UnmarshalYAML L r v mediaType
          else if mediaType = ContentTypeText then
            (case v of
               StringPtr x \<Rightarrow>
                 (case r of
                    None \<Rightarrow> Panicked NilDereference
                  | Some b \<Rightarrow>
                      (case ReadFrom b of
                         (b1, buf, Some err) \<Rightarrow>
                           Returned (Some b1, v, Some (Wrap err ''read into buffer''))
                       | (b1, buf, None) \<Rightarrow> Returned (Some b1, StringPtr buf, None)))
             | NilStringPtr \<Rightarrow>
                 (case r of
                    None \<Rightarrow> Panicked NilDereference
                  | Some b \<Rightarrow>
                      (case ReadFrom b of
                         (b1, buf, Some err) \<Rightarrow>
                           Returned (Some b1, v, Some (Wrap err ''read into buffer''))
                       | (b1, buf, None) \<Rightarrow> Panicked NilDereference))
             | _ \<Rightarrow> Returned (r, v, Some (ErrorString ''target type is not string'')))
          else Returned (r, v, Some (Wrap ErrUnknownContentType mediaType)))"

subsection \<open>The default callbacks\<close>

definition requestCallback :: RequestCallbackFunc where
  "requestCallback r = Some r"

definition responseCallback :: ResponseCallbackFunc where
  "responseCallback r =
     (if StatusCode r \<ge> 200 \<and> StatusCode r \<le> 299 then (Some r, None)
      else (Some r, Some (ErrorString (Status r))))"

subsection \<open>New and its options\<close>

type_synonym Opt = "Client \<Rightarrow> error + Client"

definition WithPassword :: "string \<Rightarrow> Opt" where
  "WithPassword p c =
     (if length p = 0 then Inl (ErrorString ''password cannot be empty'')
      else Inr (c\<lparr>password := p\<rparr>))"

definition WithUsername :: "string \<Rightarrow> Opt" where
  "WithUsername u c =
     (if length u = 0 then Inl (ErrorString ''username cannot be empty'')
      else Inr (c\<lparr>username := u\<rparr>))"

definition WithHTTPClient :: "(request \<Rightarrow> transport_result) \<Rightarrow> Opt" where
  "WithHTTPClient t cli = Inr (cli\<lparr>client := t\<rparr>)"

definition WithRateLimiter :: "(go_context \<Rightarrow> error option) option \<Rightarrow> Opt" where
  "WithRateLimiter l cli = Inr (cli\<lparr>limiter := l\<rparr>)"

definition WithContentType :: "string \<Rightarrow> Opt" where
  "WithContentType ct c =
     (if length ct = 0 then Inl (ErrorString ''content type cannot be empty'')
      else Inr (c\<lparr>ContentType := ct\<rparr>))"

definition WithHeader :: "header option \<Rightarrow> Opt" where
  "WithHeader h c = Inr (c\<lparr>header := h\<rparr>)"

definition WithKeepResponseBody :: Opt where
  "WithKeepResponseBody c = Inr (c\<lparr>keepResponseBody := True\<rparr>)"

text \<open>The loop over the options in \<^verbatim>\<open>New\<close>: the first option that fails ends it.\<close>

fun New_opts :: "Opt list \<Rightarrow> Client \<Rightarrow> error + Client" where
  "New_opts [] c = Inr c"
| "New_opts (opt # opts) c =
     (case opt c of Inl err \<Rightarrow> Inl err | Inr c' \<Rightarrow> New_opts opts c')"

definition New :: "library \<Rightarrow> string \<Rightarrow> Opt list \<Rightarrow> error + Client" where
  "New L baseURL opts =
     (case url_Parse L baseURL of
        Inl err \<Rightarrow> Inl err
      | Inr u \<Rightarrow>
          New_opts opts
            \<lparr>client = http_Client L, limiter = None, BaseURL = u,
             ContentType = ContentTypeJSON, username = [], password = [],
             keepResponseBody = False, header = None,
             Marshaler = Some marshal, Unmarshaler = Some (unmarshal L),
             RequestCallback = Some requestCallback,
             ResponseCallback = Some responseCallback\<rparr>)"

subsection \<open>NewRequest\<close>

text \<open>\<^verbatim>\<open>req.SetBasicAuth(u, p)\<close> sets the \<^verbatim>\<open>Authorization\<close> header.\<close>

definition SetBasicAuth :: "library \<Rightarrow> string \<Rightarrow> string \<Rightarrow> request \<Rightarrow> request" where
  "SetBasicAuth L u p req =
     req\<lparr>Header := Header_Set ''Authorization'' (''Basic '' @ basicAuth L u p) (Header req)\<rparr>"

text \<open>
  Lines 240 to 253 of \<^verbatim>\<open>NewRequest\<close>: the request as it stands when the request callback
  is looked at, built from the method, the resolved URL, the marshalled bytes and the
  content type the marshaler has returned. In the source the request shares the client's
  custom header map; here it gets the map's value.
\<close>

definition assemble ::
  "library \<Rightarrow> Client \<Rightarrow> string \<Rightarrow> string \<Rightarrow> bytes \<Rightarrow> string \<Rightarrow> request" where
  "assemble L c method u buf contentType =
     (let req = \<lparr>Method = method, URL = u, Header = [], RequestBody = buf,
                 Context = Background\<rparr>;
          req = (case header c of None \<Rightarrow> req | Some h \<Rightarrow> req\<lparr>Header := h\<rparr>);
          req = (if length (username c) > 0 \<and> length (password c) > 0
                 then SetBasicAuth L (username c) (password c) req else req);
          req = req\<lparr>Header := Header_Add ''Content-Type'' contentType (Header req)\<rparr>;
          req = req\<lparr>Header := Header_Add ''Accept'' contentType (Header req)\<rparr>
      in req)"

definition NewRequest ::
  "library \<Rightarrow> Client \<Rightarrow> string \<Rightarrow> string \<Rightarrow> go_value option
     \<Rightarrow> (request option \<times> error option) outcome" where
  "NewRequest L c method urlStr payload =
     (case url_Parse L urlStr of
        Inl err \<Rightarrow> Returned (None, Some err)
      | Inr rel \<Rightarrow>
          (case Marshaler c of
             None \<Rightarrow> Panicked (PanicString ''Marshaler is nil'')
           | Some m \<Rightarrow>
               (case m bytes_Buffer payload (ContentType c) of
                  (buf, contentType, Some err) \<Rightarrow> Returned (None, Some err)
                | (buf, contentType, None) \<Rightarrow>
                    (case http_NewRequest L method (ResolveReference L (BaseURL c) rel) of
                       Some err \<Rightarrow> Returned (None, Some err)
                     | None \<Rightarrow>
                         (case RequestCallback c of
                            None \<Rightarrow> Panicked (PanicString ''RequestCallback is nil'')
                          | Some cb \<Rightarrow>
                              Returned
                                (cb (assemble L c method (ResolveReference L (BaseURL c) rel)
                                       (written buf) contentType),
                                 None))))))"

subsection \<open>Do\<close>

text \<open>
  The function \<^verbatim>\<open>Do\<close> defers (lines 311 to 325). It runs when \<^verbatim>\<open>Do\<close> returns or
  panics, on the response the variable \<^verbatim>\<open>resp\<close> then points to, which the response
  callback may have replaced: without the keep-body option it closes that response's
  body, with the option it stores \<^verbatim>\<open>save\<close> as that response's body. Either one
  dereferences \<^verbatim>\<open>resp\<close>, and the first one the body as well.
\<close>

definition deferFunc :: "bool \<Rightarrow> body option \<Rightarrow> response option \<Rightarrow> response outcome" where
  "deferFunc keep save resp =
     (case resp of
        None \<Rightarrow> Panicked NilDereference
      | Some r \<Rightarrow>
          if keep then Returned (r\<lparr>Body := save\<rparr>)
          else
            (case Body r of
               None \<Rightarrow> Panicked NilDereference
             | Some b \<Rightarrow> Returned (r\<lparr>Body := Some (fst (Close b))\<rparr>)))"

text \<open>
  \<^verbatim>\<open>return resp, err\<close> after the \<^verbatim>\<open>defer\<close>: the results are fixed, then the deferred
  function runs. It changes the response the caller gets, since the caller holds a
  pointer to it; it cannot change the returned error, since the results of \<^verbatim>\<open>Do\<close> have
  no names. A panic of the deferred function replaces the return.
\<close>

definition returning ::
  "bool \<Rightarrow> body option \<Rightarrow> response option \<Rightarrow> error option
     \<Rightarrow> (response option \<times> error option) outcome" where
  "returning keep save resp err =
     (case deferFunc keep save resp of
        Panicked p \<Rightarrow> Panicked p
      | Returned r \<Rightarrow> Returned (Some r, err))"

text \<open>A panic after the \<^verbatim>\<open>defer\<close>: the deferred function runs, and may panic anew.\<close>

definition panicking ::
  "bool \<Rightarrow> body option \<Rightarrow> response option \<Rightarrow> panic
     \<Rightarrow> (response option \<times> error option) outcome" where
  "panicking keep save resp p =
     (case deferFunc keep save resp of
        Panicked p' \<Rightarrow> Panicked p'
      | Returned r \<Rightarrow> Panicked p)"

text \<open>
  Lines 327 to 344 of \<^verbatim>\<open>Do\<close>: the response callback and the unmarshaler, with the
  target as the unmarshaler has left it.
\<close>

definition intercept_decode ::
  "Client \<Rightarrow> bool \<Rightarrow> body option \<Rightarrow> response \<Rightarrow> target
     \<Rightarrow> (response option \<times> error option) outcome \<times> target" where
  "intercept_decode c keep save resp v =
     (case ResponseCallback c of
        None \<Rightarrow> (panicking keep save (Some resp) (PanicString ''ResponseCallback is nil''), v)
      | Some cb \<Rightarrow>
          (case cb resp of
             (resp', Some err) \<Rightarrow> (returning keep save resp' (Some err), v)
           | (resp', None) \<Rightarrow>
               (case Unmarshaler c of
                  None \<Rightarrow> (panicking keep save resp' (PanicString ''Unmarshaler is nil''), v)
                | Some um \<Rightarrow>
                    (case resp' of
                       None \<Rightarrow> (panicking keep save None NilDereference, v)
                     | Some r \<Rightarrow>
                         (case um (Body r) v (ContentType c) of
                            Panicked p \<Rightarrow> (panicking keep save (Some r) p, v)
                          | Returned (b', v', err) \<Rightarrow>
                              (returning keep save (Some (r\<lparr>Body := b'\<rparr>)) err, v'))))))"

text \<open>
  Lines 317 to 323 of \<^verbatim>\<open>Do\<close>, for the response \<^verbatim>\<open>resp\<close> the transport has returned
  without an error: \<^verbatim>\<open>save\<close>, and the response as it goes on to the callback. With
  the keep-body option \<^verbatim>\<open>drainBody(resp.Body)\<close> runs, its error goes to the blank
  identifier, and its first two results become \<^verbatim>\<open>save\<close> and \<^verbatim>\<open>resp.Body\<close>; on a
  \<^verbatim>\<open>nil\<close> body the read inside \<^verbatim>\<open>drainBody\<close> panics, before anything is deferred.
\<close>

definition save_body :: "Client \<Rightarrow> response \<Rightarrow> (body option \<times> response) outcome" where
  "save_body c resp =
     (if keepResponseBody c then
        (case Body resp of
           None \<Rightarrow> Panicked NilDereference
         | Some b \<Rightarrow>
             (case drainBody b of
                (save, body', err) \<Rightarrow> Returned (save, resp\<lparr>Body := body'\<rparr>)))
      else Returned (None, resp))"

text \<open>Lines 311 to 344 of \<^verbatim>\<open>Do\<close>: all that follows the transport's response.\<close>

definition handle ::
  "Client \<Rightarrow> response \<Rightarrow> target \<Rightarrow> (response option \<times> error option) outcome \<times> target" where
  "handle c resp v =
     (case save_body c resp of
        Panicked p \<Rightarrow> (Panicked p, v)
      | Returned (save, resp') \<Rightarrow> intercept_decode c (keepResponseBody c) save resp' v)"

text \<open>
  What a call of \<^verbatim>\<open>Do\<close> leaves behind: its result, the requests it has handed to the
  transport, and the target \<^verbatim>\<open>v\<close> afterwards.
\<close>

record dispatch =
  result :: "(response option \<times> error option) outcome"
  transport_calls :: "request list"
  decoded :: target

text \<open>
  Lines 300 to 304: \<^verbatim>\<open>c.limiter.Wait(ctx)\<close> when there is a limiter, and no error when
  there is none.
\<close>

definition acquire :: "Client \<Rightarrow> go_context \<Rightarrow> error option" where
  "acquire c ctx = (case limiter c of None \<Rightarrow> None | Some l \<Rightarrow> l ctx)"

definition Do :: "Client \<Rightarrow> go_context \<Rightarrow> request \<Rightarrow> target \<Rightarrow> dispatch" where
  "Do c ctx req v =
     (case acquire c ctx of
        Some err \<Rightarrow>
          \<lparr>result = Returned (None, Some ErrTooManyRequest), transport_calls = [],
           decoded = v\<rparr>
      | None \<Rightarrow>
          (case client c (WithContext req ctx) of
             Failed resp err \<Rightarrow>
               \<lparr>result = Returned (resp, Some err),
                transport_calls = [WithContext req ctx], decoded = v\<rparr>
           | Responded resp \<Rightarrow>
               (case handle c resp v of
                  (res, v') \<Rightarrow>
                    \<lparr>result = res, transport_calls = [WithContext req ctx],
                     decoded = v'\<rparr>)))"

subsection \<open>Notions the properties are stated with\<close>

text \<open>A stream on which a \<^verbatim>\<open>Close\<close> has succeeded, so that reading it fails.\<close>

fun is_closed :: "body \<Rightarrow> bool" where
  "is_closed (Wire w) = closed w"
| "is_closed b = False"

text \<open>The content types the \<^verbatim>\<open>switch\<close> of \<^verbatim>\<open>marshal\<close> and of \<^verbatim>\<open>unmarshal\<close> has a case for.\<close>

definition known :: "string \<Rightarrow> bool" where
  "known mediaType \<longleftrightarrow>
     mediaType = ContentTypeJSON \<or> mediaType = ContentTypeYAML \<or> mediaType = ContentTypeText"

text \<open>An operation that has ended in a panic.\<close>

fun fatal :: "'a outcome \<Rightarrow> bool" where
  "fatal (Panicked p) = True"
| "fatal (Returned x) = False"

subsection \<open>A test server and test clients\<close>

text \<open>
  The server of the package's tests: it answers a request for \<^verbatim>\<open>/node\<close> with the body
  of the request, and any other request with status 404.
\<close>

definition open_wire :: "bytes \<Rightarrow> body" where
  "open_wire bs = Wire \<lparr>pending = bs, read_fault = None, close_fault = None, closed = False\<rparr>"

definition test_server :: "request \<Rightarrow> transport_result" where
  "test_server req =
     (if URL req = ''https://hostname.domain/node''
      then Responded \<lparr>StatusCode = 200, Status = ''200 OK'',
                      Body = Some (open_wire (RequestBody req))\<rparr>
      else Responded \<lparr>StatusCode = 404, Status = ''404 Not Found'',
                      Body = Some (open_wire ''invalid'')\<rparr>)"

text \<open>A connection that breaks after the first bytes of the response body.\<close>

definition broken_wire :: body where
  "broken_wire =
     Wire \<lparr>pending = ''it is on'', read_fault = Some (Foreign ''unexpected EOF''),
           close_fault = None, closed = False\<rparr>"

text \<open>A stream that can be read to its end and then refuses to close.\<close>

definition stuck_wire :: body where
  "stuck_wire =
     Wire \<lparr>pending = ''payload'', read_fault = None,
           close_fault = Some (Foreign ''close failed''), closed = False\<rparr>"

definition broken_server :: "request \<Rightarrow> transport_result" where
  "broken_server req =
     Responded \<lparr>StatusCode = 200, Status = ''200 OK'', Body = Some broken_wire\<rparr>"

text \<open>A server whose response body reads to its end and then does not close.\<close>

definition stuck_server :: "request \<Rightarrow> transport_result" where
  "stuck_server req =
     Responded \<lparr>StatusCode = 200, Status = ''200 OK'', Body = Some stuck_wire\<rparr>"

text \<open>A server that cannot be reached.\<close>

definition unreachable_server :: "request \<Rightarrow> transport_result" where
  "unreachable_server req = Failed None (Foreign ''connection refused'')"

text \<open>
  Stand-ins for the libraries, enough for the examples below: a URL with a blank in it
  does not parse, a reference is appended to the base, a method with a blank in it is
  refused, and the decoders store the bytes they are given in a target that is a pointer.
\<close>

definition example_library :: library where
  "example_library =
     \<lparr>url_Parse = (\<lambda>s. if CHR '' '' \<in> set s
                        then Inl (Foreign ''invalid character in host name'') else Inr s),
      ResolveReference = (\<lambda>base rel. base @ ''/'' @ rel),
      http_NewRequest = (\<lambda>method u. if CHR '' '' \<in> set method
                        then Some (Foreign ''net/http: invalid method'') else None),
      basicAuth = (\<lambda>u p. u @ '':'' @ p),
      json_Decode = (\<lambda>b v. case ReadFrom b of
                        (b1, data, None) \<Rightarrow> (b1, OtherPtr data, None)
                      | (b1, data, Some e) \<Rightarrow> (b1, v, Some e)),
      yaml_Unmarshal = (\<lambda>data v. (OtherPtr data, None)),
      http_Client = test_server\<rparr>"

text \<open>The client \<^verbatim>\<open>New("https://hostname.domain")\<close> returns.\<close>

definition test_client :: Client where
  "test_client =
     \<lparr>client = test_server, limiter = None, BaseURL = ''https://hostname.domain'',
      ContentType = ContentTypeJSON, username = [], password = [],
      keepResponseBody = False, header = None,
      Marshaler = Some marshal, Unmarshaler = Some (unmarshal example_library),
      RequestCallback = Some requestCallback,
      ResponseCallback = Some responseCallback\<rparr>"

text \<open>The request \<^verbatim>\<open>NewRequest("GET", "node", nil)\<close> of that client returns.\<close>

definition node_request :: request where
  "node_request =
     \<lparr>Method = ''GET'', URL = ''https://hostname.domain/node'',
      Header = [(''Content-Type'', [''application/json'']), (''Accept'', [''application/json''])],
      RequestBody = [], Context = Background\<rparr>"

text \<open>A request callback that returns \<^verbatim>\<open>nil\<close>, and a limiter that lets nothing pass.\<close>

definition drop_request :: RequestCallbackFunc where
  "drop_request r = None"

definition deny :: "go_context \<Rightarrow> error option" where
  "deny ctx = Some (Foreign ''rate: Wait(n=1) would exceed context deadline'')"

text \<open>A value of type \<^verbatim>\<open>int\<close>, which has no method at all.\<close>

definition forty_two :: go_value where
  "forty_two =
     \<lparr>Format_method = None, Error_method = None, String_method = None,
      default_format = ''42'', json_encoding = Inr ''42'', yaml_encoding = Inr ''42''\<rparr>"

text \<open>
  A value of a struct type without fields that has both an \<^verbatim>\<open>Error()\<close> method, which
  returns \<^verbatim>\<open>"E"\<close>, and a \<^verbatim>\<open>String()\<close> method, which returns \<^verbatim>\<open>"S"\<close>.
\<close>

definition error_and_stringer :: go_value where
  "error_and_stringer =
     \<lparr>Format_method = None, Error_method = Some ''E'', String_method = Some ''S'',
      default_format = ''{}'', json_encoding = Inr ''{}'', yaml_encoding = Inr ''{}''\<rparr>"

section \<open>Properties\<close>

lemmas example_defs =
  test_client_def test_server_def broken_server_def broken_wire_def stuck_wire_def
  open_wire_def node_request_def example_library_def drop_request_def deny_def
  forty_two_def error_and_stringer_def unreachable_server_def stuck_server_def

lemmas content_types = ContentTypeText_def ContentTypeJSON_def ContentTypeYAML_def

lemmas Do_defs =
  Do_def acquire_def handle_def save_body_def intercept_decode_def returning_def
  deferFunc_def WithContext_def

subsection \<open>The examples are what the package builds\<close>

lemma New_test_client: "New example_library ''https://hostname.domain'' [] = Inr test_client"
  by (simp add: New_def example_defs)

lemma New_rejects_empty_content_type:
  "New example_library ''https://hostname.domain'' [WithContentType []] =
     Inl (ErrorString ''content type cannot be empty'')"
  by (simp add: New_def WithContentType_def example_defs)

lemma New_with_options:
  "New example_library ''https://hostname.domain''
     [WithKeepResponseBody, WithContentType ContentTypeText] =
   Inr (test_client\<lparr>keepResponseBody := True, ContentType := ContentTypeText\<rparr>)"
  by (simp add: New_def WithKeepResponseBody_def WithContentType_def example_defs content_types)

subsection \<open>Helper facts on the deferred function\<close>

lemma panicking_fatal: "fatal (panicking keep save resp p)"
  by (simp add: panicking_def split: outcome.splits)

lemma panicking_never_returns: "panicking keep save resp p \<noteq> Returned x"
  using panicking_fatal [of keep save resp p] by auto

lemma returning_keep:
  "returning True save resp err = Returned (Some r, e) \<Longrightarrow> Body r = save \<and> e = err"
  by (auto simp: returning_def deferFunc_def split: option.splits outcome.splits)

lemma intercept_decode_returns:
  assumes "fst (intercept_decode c keep save resp v) = Returned (Some r, e)"
  shows "\<exists>resp' err. returning keep save resp' err = Returned (Some r, e)"
  using assms
  by (auto simp: intercept_decode_def panicking_never_returns
      split: option.splits prod.splits outcome.splits)

lemma Do_returns_after_response:
  assumes "acquire c ctx = None"
      and "client c (WithContext req ctx) = Responded resp"
      and "result (Do c ctx req v) = Returned (Some r, e)"
  shows "\<exists>save resp1 resp' err.
           save_body c resp = Returned (save, resp1)
           \<and> returning (keepResponseBody c) save resp' err = Returned (Some r, e)"
proof -
  from assms have h: "fst (handle c resp v) = Returned (Some r, e)"
    by (simp add: Do_def split: prod.splits)
  then obtain save resp1 where s: "save_body c resp = Returned (save, resp1)"
    by (auto simp: handle_def split: outcome.splits)
  with h have "fst (intercept_decode c (keepResponseBody c) save resp1 v) = Returned (Some r, e)"
    by (simp add: handle_def)
  from intercept_decode_returns [OF this] s show ?thesis by blast
qed

subsection \<open>Helper facts on streams\<close>

lemma drainBody_success:
  "snd (snd (drainBody b)) = None \<Longrightarrow>
     \<exists>s. fst (drainBody b) = Some s \<and> snd (ReadFrom s) = (fst (snd (ReadFrom b)), None)"
  by (auto simp: drainBody_def split: prod.splits option.splits if_splits)

lemma drainBody_second: "\<exists>save b' e. drainBody b = (save, Some b', e)"
  by (auto simp: drainBody_def split: prod.splits option.splits)


section \<open>The claims\<close>

subsection \<open>The request builder\<close>

text \<open>
  Claim C1, as amended. Once the relative URL has parsed, the marshaler has returned no
  error and \<^verbatim>\<open>http.NewRequest\<close> has accepted method and URL, \<^verbatim>\<open>NewRequest\<close> hands the
  assembled request (method, resolved URL, marshalled body, custom headers, basic
  authentication, \<^verbatim>\<open>Content-Type\<close> and \<^verbatim>\<open>Accept\<close>) to the request callback and returns
  whatever the callback returns, with no error; that holds for a callback that returns
  \<^verbatim>\<open>nil\<close> too. It panics only when the callback itself is \<^verbatim>\<open>nil\<close>.
\<close>

theorem NewRequest_returns_what_the_callback_returns:
  assumes "url_Parse L urlStr = Inr rel"
      and "Marshaler c = Some m"
      and "m bytes_Buffer payload (ContentType c) = (buf, contentType, None)"
      and "http_NewRequest L verb (ResolveReference L (BaseURL c) rel) = None"
  shows "NewRequest L c verb urlStr payload =
           (case RequestCallback c of
              None \<Rightarrow> Panicked (PanicString ''RequestCallback is nil'')
            | Some cb \<Rightarrow>
                Returned
                  (cb (assemble L c verb (ResolveReference L (BaseURL c) rel)
                         (written buf) contentType),
                   None))"
  using assms by (simp add: NewRequest_def)

theorem NewRequest_returns_what_the_callback_returns_witness:
  "url_Parse example_library ''node'' = Inr ''node''
   \<and> Marshaler test_client = Some marshal
   \<and> marshal bytes_Buffer None (ContentType test_client) =
       (bytes_Buffer, ''application/json'', None)
   \<and> http_NewRequest example_library ''GET''
        (ResolveReference example_library (BaseURL test_client) ''node'') = None
   \<and> NewRequest example_library test_client ''GET'' ''node'' None =
        Returned (Some node_request, None)"
  using NewRequest_returns_what_the_callback_returns
    [where L = example_library and urlStr = "''node''" and rel = "''node''"
       and c = test_client and m = marshal and payload = None and buf = bytes_Buffer
       and contentType = "''application/json''" and verb = "''GET''"]
  by (simp add: example_defs marshal_def bytes_Buffer_def assemble_def
      requestCallback_def content_types)

text \<open>
  Claim C1 as it is written fails: with a request callback that returns \<^verbatim>\<open>nil\<close>,
  \<^verbatim>\<open>NewRequest\<close> returns that \<^verbatim>\<open>nil\<close> request and a \<^verbatim>\<open>nil\<close> error, and does not panic.
\<close>

theorem NewRequest_nil_from_callback_counterexample:
  "RequestCallback (test_client\<lparr>RequestCallback := Some drop_request\<rparr>) = Some drop_request
   \<and> drop_request node_request = None
   \<and> NewRequest example_library (test_client\<lparr>RequestCallback := Some drop_request\<rparr>)
        ''GET'' ''node'' None = Returned (None, None)
   \<and> \<not> fatal (NewRequest example_library (test_client\<lparr>RequestCallback := Some drop_request\<rparr>)
        ''GET'' ''node'' None)"
  by (simp add: NewRequest_def example_defs marshal_def bytes_Buffer_def content_types)

subsection \<open>The rate gate\<close>

text \<open>
  Claim C3. When the client has a rate limiter and its \<^verbatim>\<open>Wait\<close> fails, for whatever
  reason, \<^verbatim>\<open>Do\<close> returns no response and the error \<^verbatim>\<open>ErrTooManyRequest\<close> (not the
  limiter's own error), the transport has not been called, and the target is untouched.
\<close>

theorem Do_throttled_makes_no_transport_call:
  assumes "limiter c = Some l" and "l ctx = Some e"
  shows "Do c ctx req v =
           \<lparr>result = Returned (None, Some ErrTooManyRequest), transport_calls = [],
            decoded = v\<rparr>"
  using assms by (simp add: Do_def acquire_def)

theorem Do_throttled_makes_no_transport_call_witness:
  "limiter (test_client\<lparr>limiter := Some deny\<rparr>) = Some deny
   \<and> deny Canceled = Some (Foreign ''rate: Wait(n=1) would exceed context deadline'')
   \<and> Do (test_client\<lparr>limiter := Some deny\<rparr>) Canceled node_request (StringPtr []) =
       \<lparr>result = Returned (None, Some ErrTooManyRequest), transport_calls = [],
        decoded = StringPtr []\<rparr>"
  using Do_throttled_makes_no_transport_call
    [where c = "test_client\<lparr>limiter := Some deny\<rparr>" and l = deny and ctx = Canceled
       and e = "Foreign ''rate: Wait(n=1) would exceed context deadline''"
       and req = node_request and v = "StringPtr []"]
  by (simp add: deny_def)

subsection \<open>The response body after Do\<close>

text \<open>
  Claim C2 holds on the paths the package tests and fails on one the code leaves open. The
  client has the keep-body option, the server answers with status 200, and the connection
  breaks while the body is read. \<^verbatim>\<open>drainBody\<close> returns \<^verbatim>\<open>nil\<close>, the original stream and
  the error of the read; \<^verbatim>\<open>Do\<close> stores the first as \<^verbatim>\<open>save\<close> and drops the error (line
  319); the default callback accepts the status, the default unmarshaler has nothing to do
  for a \<^verbatim>\<open>nil\<close> target, and the deferred function stores \<^verbatim>\<open>save\<close> as the body. The caller
  gets a response whose body is \<^verbatim>\<open>nil\<close> and no error, where the claim, the comment on
  \<^verbatim>\<open>WithKeepResponseBody\<close> and the package's test of the option have a body that the caller
  reads and closes.
\<close>

theorem Do_keep_body_broken_read_returns_nil_body:
  "New example_library ''https://hostname.domain''
     [WithKeepResponseBody, WithHTTPClient broken_server] =
     Inr (test_client\<lparr>keepResponseBody := True, client := broken_server\<rparr>)
   \<and> broken_server (WithContext node_request Background) =
       Responded \<lparr>StatusCode = 200, Status = ''200 OK'', Body = Some broken_wire\<rparr>
   \<and> drainBody broken_wire =
       (None,
        Some (Wire \<lparr>pending = [], read_fault = Some (Foreign ''unexpected EOF''),
                    close_fault = None, closed = False\<rparr>),
        Some (Foreign ''unexpected EOF''))
   \<and> Do (test_client\<lparr>keepResponseBody := True, client := broken_server\<rparr>)
        Background node_request NilTarget =
       \<lparr>result = Returned (Some \<lparr>StatusCode = 200, Status = ''200 OK'', Body = None\<rparr>, None),
        transport_calls = [node_request], decoded = NilTarget\<rparr>"
  by (simp add: New_def WithKeepResponseBody_def WithHTTPClient_def Do_defs example_defs
      drainBody_def unmarshal_def responseCallback_def)

text \<open>
  Where the claim holds. With the keep-body option and a body that \<^verbatim>\<open>drainBody\<close> drains
  without an error, every response \<^verbatim>\<open>Do\<close> returns carries the clone saved before the
  callback and the unmarshaler ran, and reading it yields all the bytes the transport's
  body held.
\<close>

lemma Do_keep_body_returns_clone:
  assumes "acquire c ctx = None"
      and "client c (WithContext req ctx) = Responded resp"
      and "Body resp = Some b"
      and "keepResponseBody c"
      and "snd (snd (drainBody b)) = None"
      and "result (Do c ctx req v) = Returned (Some r, e)"
  shows "\<exists>s. fst (drainBody b) = Some s \<and> Body r = Some s
           \<and> snd (ReadFrom s) = (fst (snd (ReadFrom b)), None)"
proof -
  from Do_returns_after_response [OF assms(1,2,6)]
  obtain save resp1 resp' err where
    s: "save_body c resp = Returned (save, resp1)" and
    t: "returning (keepResponseBody c) save resp' err = Returned (Some r, e)"
    by blast
  from s assms(3,4) have "save = fst (drainBody b)"
    by (auto simp: save_body_def split: prod.splits)
  moreover from t assms(4) have "Body r = save"
    using returning_keep by auto
  ultimately show ?thesis
    using drainBody_success [OF assms(5)] by auto
qed

text \<open>
  Without the option and with the default response callback, \<^verbatim>\<open>Do\<close> returns the
  transport's response with the body closed: at once when the status code is outside 200
  to 299, and after the unmarshaler otherwise, whatever error the unmarshaler returns. The
  stream that is closed is the one the transport has returned, in the state the unmarshaler
  has left it in.
\<close>

lemma Do_closes_the_transport_body:
  assumes "acquire c ctx = None"
      and "client c (WithContext req ctx) = Responded resp"
      and "Body resp = Some b"
      and "\<not> keepResponseBody c"
      and "ResponseCallback c = Some responseCallback"
  shows "(\<not> (200 \<le> StatusCode resp \<and> StatusCode resp \<le> 299) \<longrightarrow>
            Do c ctx req v =
              \<lparr>result = Returned (Some (resp\<lparr>Body := Some (fst (Close b))\<rparr>),
                                   Some (ErrorString (Status resp))),
               transport_calls = [WithContext req ctx], decoded = v\<rparr>)
       \<and> (200 \<le> StatusCode resp \<and> StatusCode resp \<le> 299 \<and> Unmarshaler c = Some um
           \<and> um (Some b) v (ContentType c) = Returned (Some b2, v', err) \<longrightarrow>
            Do c ctx req v =
              \<lparr>result = Returned (Some (resp\<lparr>Body := Some (fst (Close b2))\<rparr>), err),
               transport_calls = [WithContext req ctx], decoded = v'\<rparr>)"
  using assms
  by (simp add: Do_def handle_def save_body_def intercept_decode_def responseCallback_def
      returning_def deferFunc_def)

text \<open>
  The default unmarshaler only reads: outside the JSON decoder, which is the library's,
  it leaves the stream as it was or as reading it to its end leaves it.
\<close>

lemma unmarshal_only_reads:
  assumes "unmarshal L (Some b) v mediaType = Returned (r', v', err)"
      and "mediaType \<noteq> ContentTypeJSON \<or> v = NilTarget \<or> (\<exists>w. v = WriterTarget w)"
  shows "r' = Some b \<or> r' = Some (fst (ReadFrom b))"
  using assms
  by (cases v)
     (auto simp: unmarshal_def io_Copy_def UnmarshalYAML_def
       split: if_splits prod.splits option.splits)

text \<open>
  A stream of the transport whose \<^verbatim>\<open>Close\<close> succeeds is closed by it, read or unread,
  and reading it afterwards fails.
\<close>

lemma Close_after_read_closes:
  assumes "close_fault w = None"
      and "b2 = Wire w \<or> b2 = fst (ReadFrom (Wire w))"
  shows "is_closed (fst (Close b2))
       \<and> snd (ReadFrom (fst (Close b2))) = ([], Some ErrBodyReadAfterClose)"
  using assms by auto

lemma Do_default_client_closes_wire:
  assumes "acquire c ctx = None"
      and "client c (WithContext req ctx) = Responded resp"
      and "Body resp = Some (Wire w)"
      and "close_fault w = None"
      and "\<not> keepResponseBody c"
      and "ResponseCallback c = Some responseCallback"
      and "Unmarshaler c = Some (unmarshal L)"
      and "ContentType c \<noteq> ContentTypeJSON"
      and "result (Do c ctx req v) = Returned (Some r, e)"
  shows "\<exists>b2. (b2 = Wire w \<or> b2 = fst (ReadFrom (Wire w)))
           \<and> Body r = Some (fst (Close b2))
           \<and> is_closed (fst (Close b2))
           \<and> snd (ReadFrom (fst (Close b2))) = ([], Some ErrBodyReadAfterClose)"
proof (cases "200 \<le> StatusCode resp \<and> StatusCode resp \<le> 299")
  case False
  with Do_closes_the_transport_body [OF assms(1,2,3,5,6), where v = v] assms(9)
  have "Body r = Some (fst (Close (Wire w)))" by auto
  with Close_after_read_closes [OF assms(4), of "Wire w"] show ?thesis by blast
next
  case True
  show ?thesis
  proof (cases "unmarshal L (Some (Wire w)) v (ContentType c)")
    case (Panicked p)
    with True assms have False
      by (simp add: Do_def handle_def save_body_def intercept_decode_def responseCallback_def
          panicking_never_returns)
    then show ?thesis ..
  next
    case (Returned x)
    then obtain r' v' err where
      u: "unmarshal L (Some (Wire w)) v (ContentType c) = Returned (r', v', err)"
      by (cases x) auto
    from unmarshal_only_reads [OF u] assms(8)
    have "r' = Some (Wire w) \<or> r' = Some (fst (ReadFrom (Wire w)))" by blast
    then obtain b2 where b2: "r' = Some b2" "b2 = Wire w \<or> b2 = fst (ReadFrom (Wire w))"
      by blast
    from Do_closes_the_transport_body
      [OF assms(1,2,3,5,6), where um = "unmarshal L" and v = v and ?b2.0 = b2 and v' = v'
         and err = err]
      True assms(7) u b2(1) assms(9)
    have "Body r = Some (fst (Close b2))" by auto
    with Close_after_read_closes [OF assms(4) b2(2)] b2(2) show ?thesis by blast
  qed
qed

text \<open>
  The two tests of the package, on the test server and with the content type
  \<^verbatim>\<open>text/plain\<close>: with the option the body can be read after \<^verbatim>\<open>Do\<close>, and without it the
  body is closed, also when the decoding has failed.
\<close>

lemma Do_keep_body_test:
  "Do (test_client\<lparr>keepResponseBody := True, ContentType := ContentTypeText\<rparr>)
        Background (node_request\<lparr>RequestBody := ''payload''\<rparr>) (StringPtr []) =
       \<lparr>result = Returned (Some \<lparr>StatusCode = 200, Status = ''200 OK'',
                                  Body = Some (NopCloser ''payload'')\<rparr>, None),
        transport_calls = [node_request\<lparr>RequestBody := ''payload''\<rparr>],
        decoded = StringPtr ''payload''\<rparr>
   \<and> snd (ReadFrom (NopCloser ''payload'')) = (''payload'', None)"
  by (simp add: Do_defs example_defs content_types drainBody_def unmarshal_def
      responseCallback_def)

lemma Do_closed_body_test:
  "Do (test_client\<lparr>ContentType := ContentTypeText\<rparr>)
        Background (node_request\<lparr>RequestBody := ''payload''\<rparr>) (OtherPtr ''0'') =
       \<lparr>result = Returned (Some \<lparr>StatusCode = 200, Status = ''200 OK'',
                                  Body = Some (Wire \<lparr>pending = ''payload'', read_fault = None,
                                                     close_fault = None, closed = True\<rparr>)\<rparr>,
                            Some (ErrorString ''target type is not string'')),
        transport_calls = [node_request\<lparr>RequestBody := ''payload''\<rparr>],
        decoded = OtherPtr ''0''\<rparr>
   \<and> snd (ReadFrom (Wire \<lparr>pending = ''payload'', read_fault = None,
                           close_fault = None, closed = True\<rparr>)) =
       ([], Some ErrBodyReadAfterClose)"
  by (simp add: Do_defs example_defs content_types drainBody_def unmarshal_def
      responseCallback_def)

subsection \<open>Absent collaborators\<close>




subsection \<open>The default response callback\<close>

text \<open>
  Claim C5. The default response callback returns the response it was given and no error
  exactly when the status code lies in 200 to 299; for any other status code it returns
  the response and an error whose text is the status line. In that case \<^verbatim>\<open>Do\<close>, with
  the default callback, an admitted call and a response with a body from the transport,
  returns that error and a response that is there, with the status it came with.
\<close>

theorem responseCallback_by_status_code:
  "(responseCallback r = (Some r, None)) = (200 \<le> StatusCode r \<and> StatusCode r \<le> 299)
   \<and> (\<not> (200 \<le> StatusCode r \<and> StatusCode r \<le> 299) \<longrightarrow>
        (\<exists>e. responseCallback r = (Some r, Some e) \<and> Error e = Status r))
   \<and> (acquire c ctx = None \<and> client c (WithContext req ctx) = Responded r
        \<and> Body r \<noteq> None \<and> ResponseCallback c = Some responseCallback
        \<and> \<not> (200 \<le> StatusCode r \<and> StatusCode r \<le> 299) \<longrightarrow>
        (\<exists>r' e. result (Do c ctx req v) = Returned (Some r', Some e)
           \<and> Error e = Status r \<and> Status r' = Status r \<and> StatusCode r' = StatusCode r))"
proof (intro conjI impI)
  show "(responseCallback r = (Some r, None)) = (200 \<le> StatusCode r \<and> StatusCode r \<le> 299)"
    by (simp add: responseCallback_def)
next
  assume "\<not> (200 \<le> StatusCode r \<and> StatusCode r \<le> 299)"
  then show "\<exists>e. responseCallback r = (Some r, Some e) \<and> Error e = Status r"
    by (auto simp: responseCallback_def)
next
  assume a: "acquire c ctx = None \<and> client c (WithContext req ctx) = Responded r
        \<and> Body r \<noteq> None \<and> ResponseCallback c = Some responseCallback
        \<and> \<not> (200 \<le> StatusCode r \<and> StatusCode r \<le> 299)"
  then obtain b where b: "Body r = Some b" by auto
  show "\<exists>r' e. result (Do c ctx req v) = Returned (Some r', Some e)
           \<and> Error e = Status r \<and> Status r' = Status r \<and> StatusCode r' = StatusCode r"
  proof (cases "keepResponseBody c")
    case True
    obtain save b' e where d: "drainBody b = (save, Some b', e)"
      using drainBody_second by blast
    from a b True d show ?thesis
      by (auto simp: Do_def handle_def save_body_def intercept_decode_def
          responseCallback_def returning_def deferFunc_def)
  next
    case False
    with a b show ?thesis
      by (auto simp: Do_def handle_def save_body_def intercept_decode_def
          responseCallback_def returning_def deferFunc_def)
  qed
qed

theorem responseCallback_by_status_code_witness:
  "responseCallback \<lparr>StatusCode = 204, Status = ''204 No Content'', Body = Some NoBody\<rparr> =
     (Some \<lparr>StatusCode = 204, Status = ''204 No Content'', Body = Some NoBody\<rparr>, None)
   \<and> responseCallback
       \<lparr>StatusCode = 404, Status = ''404 Not Found'', Body = Some (open_wire ''invalid'')\<rparr> =
     (Some \<lparr>StatusCode = 404, Status = ''404 Not Found'', Body = Some (open_wire ''invalid'')\<rparr>,
      Some (ErrorString ''404 Not Found''))
   \<and> Error (ErrorString ''404 Not Found'') = ''404 Not Found''
   \<and> acquire test_client Background = None
   \<and> client test_client
        (WithContext (node_request\<lparr>URL := ''https://hostname.domain/invalid''\<rparr>) Background) =
       Responded \<lparr>StatusCode = 404, Status = ''404 Not Found'',
                  Body = Some (open_wire ''invalid'')\<rparr>
   \<and> ResponseCallback test_client = Some responseCallback
   \<and> result (Do test_client Background
        (node_request\<lparr>URL := ''https://hostname.domain/invalid''\<rparr>) (WriterTarget bytes_Buffer)) =
       Returned
         (Some \<lparr>StatusCode = 404, Status = ''404 Not Found'',
                Body = Some (Wire \<lparr>pending = ''invalid'', read_fault = None,
                                   close_fault = None, closed = True\<rparr>)\<rparr>,
          Some (ErrorString ''404 Not Found''))"
  using
    responseCallback_by_status_code
      [where r = "\<lparr>StatusCode = 204, Status = ''204 No Content'', Body = Some NoBody\<rparr>"]
    responseCallback_by_status_code
      [where r = "\<lparr>StatusCode = 404, Status = ''404 Not Found'',
                   Body = Some (open_wire ''invalid'')\<rparr>"
         and c = test_client and ctx = Background
         and req = "node_request\<lparr>URL := ''https://hostname.domain/invalid''\<rparr>"
         and v = "WriterTarget bytes_Buffer"]
  by (simp add: Do_defs responseCallback_def example_defs)

subsection \<open>The codecs\<close>

text \<open>
  Claim C6, as amended. With the content type \<^verbatim>\<open>text/plain\<close>, \<^verbatim>\<open>marshal\<close> takes any
  payload that is there: it writes what \<^verbatim>\<open>fmt.Fprint\<close> prints for it, which is what its
  \<^verbatim>\<open>Format\<close> method writes when it has one, else the result of \<^verbatim>\<open>Error()\<close> when it
  has that method, else the result of \<^verbatim>\<open>String()\<close> when it has that method, else the
  default rendering; and it returns the error of that write and no other, so a payload
  without a string-rendering method is no mismatch. \<^verbatim>\<open>unmarshal\<close>, for a target that
  is there and is no \<^verbatim>\<open>io.Writer\<close>, requires a \<^verbatim>\<open>*string\<close>: for a target of any other
  type it returns the error \<^verbatim>\<open>target type is not string\<close>, without a panic, without
  reading the stream and without touching the target. For a \<^verbatim>\<open>*string\<close> it reads the
  stream to its end; a failed read is returned wrapped with \<^verbatim>\<open>read into buffer\<close> and
  the target is left alone; after a read that succeeds, a pointer that is not \<^verbatim>\<open>nil\<close>
  gets the bytes read, and a \<^verbatim>\<open>nil\<close> pointer makes the store panic.
\<close>

theorem text_codec_payload_types:
  "marshal w (Some x) ContentTypeText =
     (fst (Write w (fmt_Sprint x)), ContentTypeText, snd (Write w (fmt_Sprint x)))
   \<and> (write_fault w = None \<longrightarrow>
        marshal w (Some x) ContentTypeText =
          (w\<lparr>written := written w @ fmt_Sprint x\<rparr>, ContentTypeText, None))
   \<and> (Format_method x = Some t \<longrightarrow> fmt_Sprint x = t)
   \<and> (Format_method x = None \<and> Error_method x = Some t \<longrightarrow> fmt_Sprint x = t)
   \<and> (Format_method x = None \<and> Error_method x = None \<and> String_method x = Some t \<longrightarrow>
        fmt_Sprint x = t)
   \<and> (Format_method x = None \<and> Error_method x = None \<and> String_method x = None \<longrightarrow>
        fmt_Sprint x = default_format x)
   \<and> unmarshal L r (OtherPtr p) ContentTypeText =
        Returned (r, OtherPtr p, Some (ErrorString ''target type is not string''))
   \<and> (ReadFrom b = (b1, buf, None) \<longrightarrow>
        unmarshal L (Some b) (StringPtr s) ContentTypeText =
          Returned (Some b1, StringPtr buf, None)
        \<and> unmarshal L (Some b) NilStringPtr ContentTypeText = Panicked NilDereference)
   \<and> (ReadFrom b = (b1, buf, Some e) \<longrightarrow>
        unmarshal L (Some b) (StringPtr s) ContentTypeText =
          Returned (Some b1, StringPtr s, Some (Wrap e ''read into buffer''))
        \<and> unmarshal L (Some b) NilStringPtr ContentTypeText =
          Returned (Some b1, NilStringPtr, Some (Wrap e ''read into buffer'')))"
  by (simp add: marshal_def unmarshal_def Write_def fmt_Sprint_def content_types
      split: prod.splits)

text \<open>
  The integer 42 and a value with both \<^verbatim>\<open>Error()\<close> and \<^verbatim>\<open>String()\<close> are marshalled;
  a stream that reads to its end and one that breaks are unmarshalled into an integer, a
  string and a \<^verbatim>\<open>nil\<close> pointer to a string.
\<close>

theorem text_codec_payload_types_witness:
  "write_fault bytes_Buffer = None
   \<and> Format_method forty_two = None \<and> Error_method forty_two = None
   \<and> String_method forty_two = None
   \<and> marshal bytes_Buffer (Some forty_two) ContentTypeText =
       (\<lparr>written = ''42'', write_fault = None\<rparr>, ''text/plain'', None)
   \<and> Format_method error_and_stringer = None
   \<and> Error_method error_and_stringer = Some ''E''
   \<and> String_method error_and_stringer = Some ''S''
   \<and> marshal bytes_Buffer (Some error_and_stringer) ContentTypeText =
       (\<lparr>written = ''E'', write_fault = None\<rparr>, ''text/plain'', None)
   \<and> fmt_Sprint (error_and_stringer\<lparr>Error_method := None\<rparr>) = ''S''
   \<and> fmt_Sprint (error_and_stringer\<lparr>Format_method := Some ''F''\<rparr>) = ''F''
   \<and> unmarshal example_library (Some (open_wire ''payload'')) (OtherPtr ''0'') ContentTypeText =
       Returned (Some (open_wire ''payload''), OtherPtr ''0'',
                 Some (ErrorString ''target type is not string''))
   \<and> ReadFrom (open_wire ''payload'') = (open_wire [], ''payload'', None)
   \<and> unmarshal example_library (Some (open_wire ''payload'')) (StringPtr []) ContentTypeText =
       Returned (Some (open_wire []), StringPtr ''payload'', None)
   \<and> unmarshal example_library (Some (open_wire ''payload'')) NilStringPtr ContentTypeText =
       Panicked NilDereference
   \<and> ReadFrom broken_wire =
       (Wire \<lparr>pending = [], read_fault = Some (Foreign ''unexpected EOF''),
              close_fault = None, closed = False\<rparr>,
        ''it is on'', Some (Foreign ''unexpected EOF''))
   \<and> unmarshal example_library (Some broken_wire) (StringPtr ''before'') ContentTypeText =
       Returned
         (Some (Wire \<lparr>pending = [], read_fault = Some (Foreign ''unexpected EOF''),
                     close_fault = None, closed = False\<rparr>),
          StringPtr ''before'',
          Some (Wrap (Foreign ''unexpected EOF'') ''read into buffer''))"
  using
    text_codec_payload_types
      [where w = bytes_Buffer and x = forty_two and L = example_library
         and r = "Some (open_wire ''payload'')" and p = "''0''"
         and b = "open_wire ''payload''" and ?b1.0 = "open_wire []" and buf = "''payload''"
         and s = "[]"]
    text_codec_payload_types
      [where w = bytes_Buffer and x = error_and_stringer and t = "''E''"
         and L = example_library and b = broken_wire
         and ?b1.0 = "Wire \<lparr>pending = [], read_fault = Some (Foreign ''unexpected EOF''),
                            close_fault = None, closed = False\<rparr>"
         and buf = "''it is on''" and e = "Foreign ''unexpected EOF''" and s = "''before''"]
    text_codec_payload_types
      [where x = "error_and_stringer\<lparr>Error_method := None\<rparr>" and t = "''S''"]
    text_codec_payload_types
      [where x = "error_and_stringer\<lparr>Format_method := Some ''F''\<rparr>" and t = "''F''"]
  by (simp add: bytes_Buffer_def forty_two_def error_and_stringer_def open_wire_def
      broken_wire_def content_types Write_def)

text \<open>
  Claim C6 as it is written fails for \<^verbatim>\<open>marshal\<close>: a payload with no string-rendering
  method at all (the integer 42 here) is marshalled as \<^verbatim>\<open>text/plain\<close> without any
  error.
\<close>

theorem marshal_text_without_Stringer_counterexample:
  "Format_method forty_two = None \<and> Error_method forty_two = None
   \<and> String_method forty_two = None
   \<and> marshal bytes_Buffer (Some forty_two) ContentTypeText =
       (\<lparr>written = ''42'', write_fault = None\<rparr>, ContentTypeText, None)"
  by (simp add: marshal_def Write_def bytes_Buffer_def forty_two_def fmt_Sprint_def content_types)

text \<open>
  Claim C9, as amended. For a content type that is none of the three the package knows,
  \<^verbatim>\<open>marshal\<close> of a payload that is there, and \<^verbatim>\<open>unmarshal\<close> into a target that is there
  and is no \<^verbatim>\<open>io.Writer\<close>, return \<^verbatim>\<open>ErrUnknownContentType\<close> wrapped with the content
  type, and write, read and change nothing. The cause of that error is
  \<^verbatim>\<open>ErrUnknownContentType\<close>, its text names the content type, and the cause of the text
  codec's payload error is another one.
\<close>

theorem unknown_content_type_is_reported:
  assumes "\<not> known mediaType"
  shows "marshal w (Some x) mediaType = (w, mediaType, Some (Wrap ErrUnknownContentType mediaType))
       \<and> unmarshal L r (StringPtr s) mediaType =
           Returned (r, StringPtr s, Some (Wrap ErrUnknownContentType mediaType))
       \<and> unmarshal L r NilStringPtr mediaType =
           Returned (r, NilStringPtr, Some (Wrap ErrUnknownContentType mediaType))
       \<and> unmarshal L r (OtherPtr p) mediaType =
           Returned (r, OtherPtr p, Some (Wrap ErrUnknownContentType mediaType))
       \<and> Cause (Wrap ErrUnknownContentType mediaType) = ErrUnknownContentType
       \<and> Error (Wrap ErrUnknownContentType mediaType) = mediaType @ '': unknown media type''
       \<and> Cause (ErrorString ''target type is not string'') \<noteq> ErrUnknownContentType"
  using assms by (simp add: known_def marshal_def unmarshal_def)

theorem unknown_content_type_is_reported_witness:
  "\<not> known ''unknown/unknown''
   \<and> marshal bytes_Buffer (Some forty_two) ''unknown/unknown'' =
       (bytes_Buffer, ''unknown/unknown'', Some (Wrap ErrUnknownContentType ''unknown/unknown''))
   \<and> unmarshal example_library (Some NoBody) (OtherPtr ''0'') ''unknown/unknown'' =
       Returned (Some NoBody, OtherPtr ''0'', Some (Wrap ErrUnknownContentType ''unknown/unknown''))
   \<and> Error (Wrap ErrUnknownContentType ''unknown/unknown'') = ''unknown/unknown: unknown media type''"
  using unknown_content_type_is_reported
    [where mediaType = "''unknown/unknown''" and w = bytes_Buffer and x = forty_two
       and L = example_library and r = "Some NoBody" and p = "''0''"]
  by (simp add: known_def content_types)

text \<open>
  Claim C9 as it is written fails: with a content type the package does not know,
  \<^verbatim>\<open>marshal\<close> of a \<^verbatim>\<open>nil\<close> payload and \<^verbatim>\<open>unmarshal\<close> into a \<^verbatim>\<open>nil\<close> target return no
  error.
\<close>

theorem unknown_content_type_unnoticed_counterexample:
  "\<not> known ''unknown/unknown''
   \<and> marshal bytes_Buffer None ''unknown/unknown'' = (bytes_Buffer, ''unknown/unknown'', None)
   \<and> unmarshal example_library (Some (open_wire ''payload'')) NilTarget ''unknown/unknown'' =
       Returned (Some (open_wire ''payload''), NilTarget, None)"
  by (simp add: known_def content_types marshal_def unmarshal_def)

subsection \<open>drainBody\<close>

text \<open>
  Claim C7, as amended. On \<^verbatim>\<open>http.NoBody\<close>, \<^verbatim>\<open>drainBody\<close> returns \<^verbatim>\<open>http.NoBody\<close> itself
  as both streams and no error: nothing is read and no buffer is made. On any other stream
  that reads to its end without an error and then closes without an error, it returns two
  streams and no error, and reading either one yields, without an error, the bytes the
  original held.
\<close>

theorem drainBody_clones:
  "drainBody NoBody = (Some NoBody, Some NoBody, None)
   \<and> (b \<noteq> NoBody \<and> ReadFrom b = (b1, buf, None) \<and> snd (Close b1) = None \<longrightarrow>
        (\<exists>r1 r2. drainBody b = (Some r1, Some r2, None)
           \<and> snd (ReadFrom r1) = (buf, None) \<and> snd (ReadFrom r2) = (buf, None)))"
  by (auto simp: drainBody_def split: prod.splits option.splits)

theorem drainBody_clones_witness:
  "drainBody NoBody = (Some NoBody, Some NoBody, None)
   \<and> open_wire ''payload'' \<noteq> NoBody
   \<and> ReadFrom (open_wire ''payload'') = (open_wire [], ''payload'', None)
   \<and> snd (Close (open_wire [])) = None
   \<and> drainBody (open_wire ''payload'') =
       (Some (NopCloser ''payload''), Some (NopCloser ''payload''), None)
   \<and> snd (ReadFrom (NopCloser ''payload'')) = (''payload'', None)"
  using drainBody_clones
    [where b = "open_wire ''payload''" and ?b1.0 = "open_wire []" and buf = "''payload''"]
  by (simp add: open_wire_def drainBody_def)

text \<open>
  Claim C7 as it is written fails: a stream that is not \<^verbatim>\<open>http.NoBody\<close> and whose read
  fails makes \<^verbatim>\<open>drainBody\<close> fail; it returns no first stream and the read's error.
\<close>

theorem drainBody_read_failure_counterexample:
  "broken_wire \<noteq> NoBody
   \<and> drainBody broken_wire =
       (None,
        Some (Wire \<lparr>pending = [], read_fault = Some (Foreign ''unexpected EOF''),
                    close_fault = None, closed = False\<rparr>),
        Some (Foreign ''unexpected EOF''))"
  by (simp add: drainBody_def broken_wire_def)

text \<open>
  Claim C8. For a stream that is not \<^verbatim>\<open>http.NoBody\<close>: when reading it fails,
  \<^verbatim>\<open>drainBody\<close> returns the read's error, no first stream, and as the second stream the
  original as the failed read has left it; it has not closed it (an open stream comes back
  open). When the read succeeds and the close fails, it returns the close's error, no
  first stream, and the original, which is drained (a further read yields no bytes) and
  not closed.
\<close>

theorem drainBody_failure_returns_original:
  assumes "b \<noteq> NoBody"
  shows "(ReadFrom b = (b1, buf, Some e) \<longrightarrow>
            drainBody b = (None, Some b1, Some e) \<and> is_closed b1 = is_closed b)
       \<and> (ReadFrom b = (b1', buf', None) \<and> Close b1' = (b2, Some e') \<longrightarrow>
            drainBody b = (None, Some b2, Some e') \<and> \<not> is_closed b2
            \<and> snd (ReadFrom b2) = ([], None))"
  using assms
  by (cases b) (auto simp: drainBody_def split: prod.splits option.splits if_splits)

theorem drainBody_failure_returns_original_witness:
  "broken_wire \<noteq> NoBody
   \<and> \<not> is_closed broken_wire
   \<and> ReadFrom broken_wire =
       (Wire \<lparr>pending = [], read_fault = Some (Foreign ''unexpected EOF''),
              close_fault = None, closed = False\<rparr>,
        ''it is on'', Some (Foreign ''unexpected EOF''))
   \<and> drainBody broken_wire =
       (None,
        Some (Wire \<lparr>pending = [], read_fault = Some (Foreign ''unexpected EOF''),
                    close_fault = None, closed = False\<rparr>),
        Some (Foreign ''unexpected EOF''))
   \<and> stuck_wire \<noteq> NoBody
   \<and> ReadFrom stuck_wire =
       (Wire \<lparr>pending = [], read_fault = None,
              close_fault = Some (Foreign ''close failed''), closed = False\<rparr>,
        ''payload'', None)
   \<and> Close (Wire \<lparr>pending = [], read_fault = None,
                   close_fault = Some (Foreign ''close failed''), closed = False\<rparr>) =
       (Wire \<lparr>pending = [], read_fault = None,
              close_fault = Some (Foreign ''close failed''), closed = False\<rparr>,
        Some (Foreign ''close failed''))
   \<and> drainBody stuck_wire =
       (None,
        Some (Wire \<lparr>pending = [], read_fault = None,
                    close_fault = Some (Foreign ''close failed''), closed = False\<rparr>),
        Some (Foreign ''close failed''))"
  using
    drainBody_failure_returns_original
      [where b = broken_wire
         and ?b1.0 = "Wire \<lparr>pending = [], read_fault = Some (Foreign ''unexpected EOF''),
                            close_fault = None, closed = False\<rparr>"
         and buf = "''it is on''" and e = "Foreign ''unexpected EOF''"]
    drainBody_failure_returns_original
      [where b = stuck_wire
         and b1' = "Wire \<lparr>pending = [], read_fault = None,
                          close_fault = Some (Foreign ''close failed''), closed = False\<rparr>"
         and buf' = "''payload''"
         and ?b2.0 = "Wire \<lparr>pending = [], read_fault = None,
                            close_fault = Some (Foreign ''close failed''), closed = False\<rparr>"
         and e' = "Foreign ''close failed''"]
  by (simp add: broken_wire_def stuck_wire_def)

subsection \<open>A failed drain under the keep-body option\<close>




end
